theory Spec2Isabelle
  imports Complex_Main
begin

section \<open>Data model\<close>

text \<open>
  The program is \<^verbatim>\<open>AIRacing.py\<close> followed by \<^verbatim>\<open>boundary test.py\<close>, which
  holds a second \<^verbatim>\<open>Track\<close> class whose \<^verbatim>\<open>calculate_boundaries\<close> repairs and
  re-smooths the boundaries. Python floats and numpy arrays of two floats are modelled
  as real numbers and pairs of them: rounding is not modelled. Exceptions are values of
  type \<open>error\<close>. numpy answers a division by zero with \<^verbatim>\<open>nan\<close> or \<^verbatim>\<open>inf\<close>
  instead of raising; as the reals have no such value, the model marks that outcome
  with \<open>NanValue\<close>.
\<close>

type_synonym point = "real \<times> real"

datatype error = IndexError | ValueError | SplineError | NanValue

definition WIDTH :: int where
  "WIDTH = 1080"

definition HEIGHT :: int where
  "HEIGHT = 1080"

definition TRACK_WIDTH :: real where
  "TRACK_WIDTH = 80"

text \<open>
  A \<^verbatim>\<open>pygame.mask.Mask\<close> of size \<open>WIDTH \<times> HEIGHT\<close>: \<^verbatim>\<open>get_at\<close> gives the bit
  (0 or 1) of a pixel.
\<close>

type_synonym mask = "int \<times> int \<Rightarrow> int"

text \<open>
  One record serves both \<^verbatim>\<open>Track\<close> classes. The class of \<^verbatim>\<open>boundary test.py\<close>
  has no polygon and no mask; its methods never touch these two fields.
\<close>

record track =
  centerline :: "point list"
  inner_boundary :: "point list"
  outer_boundary :: "point list"
  width :: real
  finalized :: bool
  track_polygon :: "point list option"
  track_mask :: "mask option"

text \<open>\<^verbatim>\<open>Track.__init__\<close>\<close>

definition Track :: "real \<Rightarrow> track" where
  "Track w = \<lparr>centerline = [], inner_boundary = [], outer_boundary = [], width = w,
     finalized = False, track_polygon = None, track_mask = None\<rparr>"

text \<open>
  The fields of \<^verbatim>\<open>Car\<close> that the simulation reads; \<^verbatim>\<open>self.x\<close> and \<^verbatim>\<open>self.y\<close>
  are \<open>car_x\<close> and \<open>car_y\<close>. The colour is only drawn; the steering function and the
  track are passed to the methods that use them.
\<close>

record car =
  start_x :: real
  start_y :: real
  car_x :: real
  car_y :: real
  angle :: real
  speed :: real
  sensors :: "int list"
  collided :: bool

text \<open>\<^verbatim>\<open>Car.__init__\<close>\<close>

definition Car :: "real \<Rightarrow> real \<Rightarrow> car" where
  "Car x0 y0 = \<lparr>start_x = x0, start_y = y0, car_x = x0, car_y = y0, angle = 0, speed = 2,
     sensors = replicate 5 200, collided = False\<rparr>"

section \<open>Python primitives\<close>

text \<open>\<^verbatim>\<open>xs[i]\<close> for a non-negative index: IndexError out of range.\<close>

definition getitem :: "'a list \<Rightarrow> nat \<Rightarrow> error + 'a" where
  "getitem xs i = (if i < length xs then Inr (xs ! i) else Inl IndexError)"

text \<open>\<^verbatim>\<open>xs[i] = v\<close> for a non-negative index: IndexError out of range.\<close>

definition setitem :: "'a list \<Rightarrow> nat \<Rightarrow> 'a \<Rightarrow> error + 'a list" where
  "setitem xs i v = (if i < length xs then Inr (xs[i := v]) else Inl IndexError)"

text \<open>\<^verbatim>\<open>int(x)\<close> of a float truncates towards zero.\<close>

definition py_int :: "real \<Rightarrow> int" where
  "py_int v = (if 0 \<le> v then \<lfloor>v\<rfloor> else \<lceil>v\<rceil>)"

text \<open>
  The value of a function that returns a bool or falls off its end: \<open>None\<close> is
  Python's \<^verbatim>\<open>None\<close>. \<open>truthy\<close> is the truth value an \<^verbatim>\<open>if\<close> or a
  \<^verbatim>\<open>not\<close> gives it.
\<close>

fun truthy :: "bool option \<Rightarrow> bool" where
  "truthy None = False"
| "truthy (Some b) = b"

text \<open>
  \<^verbatim>\<open>random.choice(seq)\<close> returns \<^verbatim>\<open>seq[k]\<close> for an index \<open>k\<close> below the
  length that the generator draws. The draw is the parameter \<open>r\<close>, reduced below the
  length; every \<open>k\<close> below the length is the reduction of some \<open>r\<close>.
\<close>

definition random_choice :: "nat \<Rightarrow> 'a list \<Rightarrow> error + 'a" where
  "random_choice r seq = (if seq = [] then Inl IndexError else Inr (seq ! (r mod length seq)))"

text \<open>\<^verbatim>\<open>np.radians\<close>\<close>

definition radians :: "real \<Rightarrow> real" where
  "radians d = d * pi / 180"

section \<open>The track's membership test\<close>

text \<open>\<^verbatim>\<open>Car.is_inside_track\<close>, with the car's track as a parameter.\<close>

definition is_inside_track :: "track \<Rightarrow> real \<Rightarrow> real \<Rightarrow> bool option" where
  "is_inside_track t px py =
     (case (if finalized t then track_mask t else None) of
        Some m \<Rightarrow>
          (if 0 \<le> py_int px \<and> py_int px < WIDTH \<and> 0 \<le> py_int py \<and> py_int py < HEIGHT
           then Some (m (py_int px, py_int py) \<noteq> 0)
           else Some False)
      | None \<Rightarrow> None)"

section \<open>Steering\<close>

text \<open>\<^verbatim>\<open>simple_logic\<close>; \<open>r\<close> is the draw of the random generator.\<close>

definition simple_logic :: "nat \<Rightarrow> int list \<Rightarrow> error + int" where
  "simple_logic r s =
     (case getitem s 2 of Inl e \<Rightarrow> Inl e | Inr s2 \<Rightarrow>
        if s2 < 50 then random_choice r [- 10, 10]
        else (case getitem s 0 of Inl e \<Rightarrow> Inl e | Inr s0 \<Rightarrow>
          if s0 < 50 then Inr 5
          else (case getitem s 4 of Inl e \<Rightarrow> Inl e | Inr s4 \<Rightarrow>
            if s4 < 50 then Inr (- 5) else Inr 0)))"

section \<open>Curve smoothing\<close>

text \<open>
  \<^verbatim>\<open>splprep\<close> and \<^verbatim>\<open>splev\<close> belong to scipy, not to this program. The fit is a
  parameter: given the points and the smoothing factor it raises (\<open>None\<close>) or gives a
  curve, which \<^verbatim>\<open>splev\<close> evaluates at each parameter value of \<^verbatim>\<open>np.linspace\<close>.
\<close>

type_synonym spline_fit = "point list \<Rightarrow> real \<Rightarrow> (real \<Rightarrow> point) option"

text \<open>\<^verbatim>\<open>np.linspace(start, stop, num)\<close>\<close>

definition linspace :: "real \<Rightarrow> real \<Rightarrow> nat \<Rightarrow> real list" where
  "linspace start stop num =
     map (\<lambda>i. start + real i * ((stop - start) / real (num - 1))) [0..<num]"

text \<open>
  \<^verbatim>\<open>Track._spline_smooth\<close>; unpacking \<^verbatim>\<open>zip(*points)\<close> of no points raises
  ValueError.
\<close>

definition spline_smooth :: "spline_fit \<Rightarrow> point list \<Rightarrow> real \<Rightarrow> nat \<Rightarrow> error + point list" where
  "spline_smooth fit points smooth_factor num_points =
     (if points = [] then Inl ValueError
      else case fit points smooth_factor of
        None \<Rightarrow> Inl SplineError
      | Some curve \<Rightarrow> Inr (map curve (linspace 0 1 num_points)))"

text \<open>\<^verbatim>\<open>Track.add_point\<close>\<close>

definition add_point :: "point \<Rightarrow> track \<Rightarrow> track" where
  "add_point p t =
     (if centerline t = [] \<or> p \<noteq> last (centerline t)
      then t\<lparr>centerline := centerline t @ [p]\<rparr> else t)"

text \<open>\<^verbatim>\<open>Track.smooth_centerline\<close>\<close>

definition smooth_centerline :: "spline_fit \<Rightarrow> track \<Rightarrow> error + track" where
  "smooth_centerline fit t =
     (if length (centerline t) > 2
      then case spline_smooth fit (centerline t) 2 200 of
        Inl e \<Rightarrow> Inl e
      | Inr c \<Rightarrow> Inr (t\<lparr>centerline := c\<rparr>)
      else Inr t)"

section \<open>Boundaries\<close>

definition vadd :: "point \<Rightarrow> point \<Rightarrow> point" where
  "vadd p q = (fst p + fst q, snd p + snd q)"

definition vsub :: "point \<Rightarrow> point \<Rightarrow> point" where
  "vsub p q = (fst p - fst q, snd p - snd q)"

definition smul :: "point \<Rightarrow> real \<Rightarrow> point" where
  "smul p k = (fst p * k, snd p * k)"

text \<open>\<^verbatim>\<open>np.linalg.norm\<close> of a vector of two numbers.\<close>

definition norm2 :: "point \<Rightarrow> real" where
  "norm2 p = sqrt (fst p * fst p + snd p * snd p)"

text \<open>Division by a divisor that is not a literal: by zero it gives no number.\<close>

definition np_divide :: "real \<Rightarrow> real \<Rightarrow> error + real" where
  "np_divide a b = (if b = 0 then Inl NanValue else Inr (a / b))"

definition vdiv :: "point \<Rightarrow> real \<Rightarrow> error + point" where
  "vdiv p k =
     (case np_divide (fst p) k of Inl e \<Rightarrow> Inl e | Inr a \<Rightarrow>
      case np_divide (snd p) k of Inl e \<Rightarrow> Inl e | Inr b \<Rightarrow> Inr (a, b))"

text \<open>
  The body of the first loop of \<^verbatim>\<open>calculate_boundaries\<close> (the same in both classes)
  for the segment from \<open>p1\<close> to \<open>p2\<close>: \<open>None\<close> is \<^verbatim>\<open>continue\<close>, otherwise the
  points appended to \<^verbatim>\<open>inner\<close> and \<^verbatim>\<open>outer\<close>.
\<close>

definition segment_offset :: "real \<Rightarrow> point \<Rightarrow> point \<Rightarrow> error + (point \<times> point) option" where
  "segment_offset w p1 p2 =
     (let direction = vsub p2 p1;
          len = norm2 direction
      in if len = 0 then Inr None
         else case vdiv direction len of
           Inl e \<Rightarrow> Inl e
         | Inr unit_direction \<Rightarrow>
             (let offset = smul (- snd unit_direction, fst unit_direction) (w / 2)
              in Inr (Some (vadd p1 offset, vsub p1 offset))))"

text \<open>The loop over \<^verbatim>\<open>range(len(self.centerline))\<close>, with its two accumulators.\<close>

fun offset_loop ::
  "real \<Rightarrow> point list \<Rightarrow> nat list \<Rightarrow> point list \<Rightarrow> point list \<Rightarrow> error + (point list \<times> point list)"
where
  "offset_loop w c [] inner outer = Inr (inner, outer)"
| "offset_loop w c (i # rest) inner outer =
     (case segment_offset w (c ! i) (c ! ((i + 1) mod length c)) of
        Inl e \<Rightarrow> Inl e
      | Inr None \<Rightarrow> offset_loop w c rest inner outer
      | Inr (Some (a, b)) \<Rightarrow> offset_loop w c rest (inner @ [a]) (outer @ [b]))"

text \<open>
  \<^verbatim>\<open>inner.append(inner[0]); outer.append(outer[0])\<close>: IndexError when the loop
  appended nothing.
\<close>

definition close_boundaries :: "point list \<times> point list \<Rightarrow> error + (point list \<times> point list)" where
  "close_boundaries io =
     (case getitem (fst io) 0 of Inl e \<Rightarrow> Inl e | Inr i0 \<Rightarrow>
      case getitem (snd io) 0 of Inl e \<Rightarrow> Inl e | Inr o0 \<Rightarrow>
        Inr (fst io @ [i0], snd io @ [o0]))"

text \<open>\<^verbatim>\<open>Track.calculate_boundaries\<close> of \<^verbatim>\<open>AIRacing.py\<close>\<close>

definition calculate_boundaries :: "track \<Rightarrow> error + (point list \<times> point list)" where
  "calculate_boundaries t =
     (case offset_loop (width t) (centerline t) [0..<length (centerline t)] [] [] of
        Inl e \<Rightarrow> Inl e
      | Inr io \<Rightarrow> close_boundaries io)"

text \<open>
  The body of the second loop of \<^verbatim>\<open>calculate_boundaries\<close> in \<^verbatim>\<open>boundary test.py\<close>:
  the pair appended to \<^verbatim>\<open>adjusted_inner\<close> and \<^verbatim>\<open>adjusted_outer\<close>.
\<close>

definition adjust_pair :: "real \<Rightarrow> point \<Rightarrow> point \<Rightarrow> error + (point \<times> point)" where
  "adjust_pair w p_inner p_outer =
     (let midpoint = smul (vadd p_inner p_outer) (1 / 2);
          distance = norm2 (vsub p_inner p_outer)
      in if distance < w
         then case (if distance \<noteq> 0 then np_divide (w / 2) distance else Inr 0.5) of
           Inl e \<Rightarrow> Inl e
         | Inr scale \<Rightarrow>
             Inr (vadd midpoint (smul (vsub p_inner midpoint) scale),
                  vadd midpoint (smul (vsub p_outer midpoint) scale))
         else Inr (p_inner, p_outer))"

text \<open>The loop over \<^verbatim>\<open>range(len(inner))\<close>.\<close>

fun adjust_loop ::
  "real \<Rightarrow> point list \<Rightarrow> point list \<Rightarrow> nat list \<Rightarrow> point list \<Rightarrow> point list
     \<Rightarrow> error + (point list \<times> point list)"
where
  "adjust_loop w inner outer [] adjusted_inner adjusted_outer =
     Inr (adjusted_inner, adjusted_outer)"
| "adjust_loop w inner outer (i # rest) adjusted_inner adjusted_outer =
     (case getitem inner i of Inl e \<Rightarrow> Inl e | Inr p_inner \<Rightarrow>
      case getitem outer i of Inl e \<Rightarrow> Inl e | Inr p_outer \<Rightarrow>
      case adjust_pair w p_inner p_outer of
        Inl e \<Rightarrow> Inl e
      | Inr (a, b) \<Rightarrow>
          adjust_loop w inner outer rest (adjusted_inner @ [a]) (adjusted_outer @ [b]))"

text \<open>The repair step: the second loop on the closed boundaries.\<close>

definition adjust_boundaries :: "real \<Rightarrow> point list \<times> point list \<Rightarrow> error + (point list \<times> point list)" where
  "adjust_boundaries w io = adjust_loop w (fst io) (snd io) [0..<length (fst io)] [] []"

text \<open>\<^verbatim>\<open>Track.calculate_boundaries\<close> of \<^verbatim>\<open>boundary test.py\<close>\<close>

definition calculate_boundaries_bt :: "spline_fit \<Rightarrow> track \<Rightarrow> error + (point list \<times> point list)" where
  "calculate_boundaries_bt fit t =
     (case calculate_boundaries t of Inl e \<Rightarrow> Inl e | Inr io \<Rightarrow>
      case adjust_boundaries (width t) io of Inl e \<Rightarrow> Inl e | Inr adj \<Rightarrow>
      case spline_smooth fit (fst adj) 2 200 of Inl e \<Rightarrow> Inl e | Inr adjusted_inner \<Rightarrow>
      case spline_smooth fit (snd adj) 2 200 of Inl e \<Rightarrow> Inl e | Inr adjusted_outer \<Rightarrow>
        Inr (adjusted_inner, adjusted_outer))"

section \<open>Finalizing the track\<close>

text \<open>
  \<^verbatim>\<open>self.centerline.append(self.centerline[0])\<close>
\<close>

definition close_centerline :: "track \<Rightarrow> error + track" where
  "close_centerline t =
     (case getitem (centerline t) 0 of
        Inl e \<Rightarrow> Inl e
      | Inr c0 \<Rightarrow> Inr (t\<lparr>centerline := centerline t @ [c0]\<rparr>))"

text \<open>
  \<^verbatim>\<open>Track.finalize\<close> of \<^verbatim>\<open>AIRacing.py\<close>. pygame fills the polygon on a
  transparent surface and takes the mask of the surface; that rasterisation is the
  parameter \<open>rasterize\<close>. The boundaries are computed twice, as in the source.
\<close>

definition finalize :: "spline_fit \<Rightarrow> (point list \<Rightarrow> mask) \<Rightarrow> track \<Rightarrow> error + track" where
  "finalize fit rasterize t =
     (if length (centerline t) > 2
      then case smooth_centerline fit t of Inl e \<Rightarrow> Inl e | Inr t1 \<Rightarrow>
           case close_centerline t1 of Inl e \<Rightarrow> Inl e | Inr t2 \<Rightarrow>
           case calculate_boundaries t2 of Inl e \<Rightarrow> Inl e | Inr io1 \<Rightarrow>
           case calculate_boundaries (t2\<lparr>inner_boundary := fst io1, outer_boundary := snd io1\<rparr>) of
             Inl e \<Rightarrow> Inl e
           | Inr io \<Rightarrow>
               (let polygon = snd io @ rev (fst io)
                in Inr (t2\<lparr>inner_boundary := fst io, outer_boundary := snd io,
                     track_polygon := Some polygon, track_mask := Some (rasterize polygon),
                     finalized := True\<rparr>))
      else Inr t)"

text \<open>\<^verbatim>\<open>Track.finalize\<close> of \<^verbatim>\<open>boundary test.py\<close>\<close>

definition finalize_bt :: "spline_fit \<Rightarrow> track \<Rightarrow> error + track" where
  "finalize_bt fit t =
     (if length (centerline t) > 2
      then case smooth_centerline fit t of Inl e \<Rightarrow> Inl e | Inr t1 \<Rightarrow>
           case close_centerline t1 of Inl e \<Rightarrow> Inl e | Inr t2 \<Rightarrow>
           case calculate_boundaries_bt fit t2 of
             Inl e \<Rightarrow> Inl e
           | Inr io \<Rightarrow>
               Inr (t2\<lparr>inner_boundary := fst io, outer_boundary := snd io, finalized := True\<rparr>)
      else Inr t)"

section \<open>Events\<close>

text \<open>
  The pygame events \<^verbatim>\<open>handle_events\<close> looks at. A mouse event carries what
  \<^verbatim>\<open>pygame.mouse.get_pos()\<close> and \<^verbatim>\<open>pygame.mouse.get_pressed()[0]\<close> return while
  it is handled.
\<close>

datatype key = K_SPACE | K_OTHER

datatype event =
    QUIT
  | MOUSEBUTTONDOWN point
  | MOUSEMOTION bool point
  | KEYDOWN key
  | OTHER_EVENT

text \<open>What \<^verbatim>\<open>handle_events\<close> does for one event that is not \<^verbatim>\<open>QUIT\<close>.\<close>

fun handle_event :: "(track \<Rightarrow> error + track) \<Rightarrow> event \<Rightarrow> track \<Rightarrow> error + track" where
  "handle_event fin (MOUSEBUTTONDOWN p) t = (if \<not> finalized t then Inr (add_point p t) else Inr t)"
| "handle_event fin (MOUSEMOTION pressed p) t =
     (if \<not> finalized t then (if pressed then Inr (add_point p t) else Inr t) else Inr t)"
| "handle_event fin (KEYDOWN k) t =
     (if \<not> finalized t then (if k = K_SPACE then fin t else Inr t) else Inr t)"
| "handle_event fin e t = Inr t"

text \<open>
  \<^verbatim>\<open>handle_events\<close> on the events of \<^verbatim>\<open>pygame.event.get()\<close>; \<open>fin\<close> is the
  class's \<^verbatim>\<open>finalize\<close>. The result is the returned flag and the track.
\<close>

fun handle_events :: "(track \<Rightarrow> error + track) \<Rightarrow> event list \<Rightarrow> track \<Rightarrow> error + (bool \<times> track)" where
  "handle_events fin [] t = Inr (True, t)"
| "handle_events fin (e # rest) t =
     (if e = QUIT then Inr (False, t)
      else case handle_event fin e t of
        Inl err \<Rightarrow> Inl err
      | Inr t' \<Rightarrow> handle_events fin rest t')"

section \<open>Cars\<close>

text \<open>\<^verbatim>\<open>Car.move\<close>\<close>

definition move :: "car \<Rightarrow> car" where
  "move c = c\<lparr>car_x := car_x c + cos (radians (angle c)) * speed c,
              car_y := car_y c - sin (radians (angle c)) * speed c\<rparr>"

text \<open>
  The inner loop of \<^verbatim>\<open>Car.sense\<close> for one ray: the distance \<^verbatim>\<open>dist\<close> at which it breaks, or
  \<open>None\<close> when \<^verbatim>\<open>range(1, 200)\<close> is exhausted.
\<close>

definition cast_ray :: "track \<Rightarrow> car \<Rightarrow> real \<Rightarrow> nat option" where
  "cast_ray t c ray_angle =
     find (\<lambda>d. \<not> truthy (is_inside_track t
                   (car_x c + cos (radians ray_angle) * real d)
                   (car_y c - sin (radians ray_angle) * real d)))
          [1..<200]"

definition sensor_angles :: "real list" where
  "sensor_angles = [- 45, - 20, 0, 20, 45]"

text \<open>The outer loop of \<^verbatim>\<open>Car.sense\<close> over \<^verbatim>\<open>enumerate(sensor_angles)\<close>.\<close>

fun sense_loop :: "track \<Rightarrow> (nat \<times> real) list \<Rightarrow> car \<Rightarrow> error + car" where
  "sense_loop t [] c = Inr c"
| "sense_loop t ((i, sensor_angle) # rest) c =
     (case cast_ray t c (angle c + sensor_angle) of
        None \<Rightarrow> sense_loop t rest c
      | Some d \<Rightarrow>
          (case setitem (sensors c) i (int d) of
             Inl e \<Rightarrow> Inl e
           | Inr s \<Rightarrow> sense_loop t rest (c\<lparr>sensors := s\<rparr>)))"

text \<open>\<^verbatim>\<open>Car.sense\<close>; the debug line is only drawn.\<close>

definition sense :: "track \<Rightarrow> car \<Rightarrow> error + car" where
  "sense t c = sense_loop t (enumerate 0 sensor_angles) c"

text \<open>\<^verbatim>\<open>Car.reset\<close>\<close>

definition reset :: "car \<Rightarrow> car" where
  "reset c = c\<lparr>car_x := start_x c, car_y := start_y c, angle := 0, speed := 2,
               collided := False\<rparr>"

text \<open>The condition of the collision test of \<^verbatim>\<open>Car.update\<close>.\<close>

definition off_track :: "track \<Rightarrow> car \<Rightarrow> bool" where
  "off_track t c \<longleftrightarrow>
     \<not> truthy (is_inside_track t (car_x c) (car_y c)) \<or>
     \<not> (0 \<le> car_x c \<and> car_x c < real_of_int WIDTH \<and> 0 \<le> car_y c \<and> car_y c < real_of_int HEIGHT)"

text \<open>
  \<^verbatim>\<open>Car.update\<close>; \<open>ai_model\<close> is the car's steering function (for the Simple policy,
  \<open>simple_logic\<close> with the generator's draw of this tick).
\<close>

definition update :: "(int list \<Rightarrow> error + real) \<Rightarrow> track \<Rightarrow> car \<Rightarrow> error + car" where
  "update ai_model t c =
     (if \<not> collided c
      then case sense t c of Inl e \<Rightarrow> Inl e | Inr c1 \<Rightarrow>
           case ai_model (sensors c1) of Inl e \<Rightarrow> Inl e | Inr turn_angle \<Rightarrow>
             (let c2 = move (c1\<lparr>angle := angle c1 + turn_angle\<rparr>)
              in if off_track t c2 then Inr (reset (c2\<lparr>collided := True\<rparr>)) else Inr c2)
      else Inr c)"

section \<open>Notions used in the statements\<close>

text \<open>Segment \<open>i\<close> of the centerline \<open>c\<close>, from \<open>c ! i\<close> to its cyclic successor, has non-zero length.\<close>

definition nondegenerate :: "point list \<Rightarrow> nat \<Rightarrow> bool" where
  "nondegenerate c i \<longleftrightarrow> c ! i \<noteq> c ! ((i + 1) mod length c)"

text \<open>The perpendicular of length \<open>\<bar>w\<bar> / 2\<close> to the segment from \<open>p1\<close> to \<open>p2\<close>.\<close>

definition offset_vector :: "real \<Rightarrow> point \<Rightarrow> point \<Rightarrow> point" where
  "offset_vector w p1 p2 =
     smul (- (snd (vsub p2 p1) / norm2 (vsub p2 p1)), fst (vsub p2 p1) / norm2 (vsub p2 p1)) (w / 2)"

definition inner_point :: "real \<Rightarrow> point list \<Rightarrow> nat \<Rightarrow> point" where
  "inner_point w c i = vadd (c ! i) (offset_vector w (c ! i) (c ! ((i + 1) mod length c)))"

definition outer_point :: "real \<Rightarrow> point list \<Rightarrow> nat \<Rightarrow> point" where
  "outer_point w c i = vsub (c ! i) (offset_vector w (c ! i) (c ! ((i + 1) mod length c)))"

text \<open>
  A fit for the examples. Like \<^verbatim>\<open>splprep\<close> with its default degree 3 it raises unless
  it is given more than 3 points; its curve is a straight stroke as long as the number of
  points it was given.
\<close>

definition stroke_fit :: spline_fit where
  "stroke_fit ps s = (if length ps \<le> 3 then None else Some (\<lambda>u. (u * real (length ps), 0)))"

section \<open>Properties\<close>

subsection \<open>Steering\<close>

lemma random_choice_pair:
  "random_choice r [a, b] = Inr a \<or> random_choice r [a, b] = Inr b"
proof -
  have "r mod 2 = 0 \<or> r mod 2 = Suc 0" by arith
  moreover have "length [a, b] = 2" by simp
  ultimately have "[a, b] ! (r mod length [a, b]) = a \<or> [a, b] ! (r mod length [a, b]) = b"
    by (metis nth_Cons_0 nth_Cons_Suc)
  then show ?thesis
    unfolding random_choice_def by auto
qed

text \<open>
  Claim C9. Whatever the random generator draws, the Simple policy on the readings
  \<open>[10, 100, 10, 100, 100]\<close> returns -10 or 10, and so never 0.
\<close>

theorem simple_logic_obstacle_ahead:
  "(simple_logic r [10, 100, 10, 100, 100] = Inr (- 10) \<or>
    simple_logic r [10, 100, 10, 100, 100] = Inr 10) \<and>
   simple_logic r [10, 100, 10, 100, 100] \<noteq> Inr 0"
proof -
  have "simple_logic r [10, 100, 10, 100, 100] = random_choice r [- 10, 10]"
    by (simp add: simple_logic_def getitem_def)
  then show ?thesis
    using random_choice_pair [of r "- 10" 10] by auto
qed

subsection \<open>The membership test before finalization\<close>

text \<open>
  Claim C10. On a track that is not finalized, or that has no mask, the membership test
  returns \<^verbatim>\<open>None\<close> at every coordinate, not \<^verbatim>\<open>False\<close>, and \<^verbatim>\<open>None\<close> is falsy.
\<close>

theorem is_inside_track_not_finalized:
  assumes "\<not> finalized t \<or> track_mask t = None"
  shows "is_inside_track t px py = None \<and> is_inside_track t px py \<noteq> Some False
    \<and> \<not> truthy (is_inside_track t px py)"
  using assms by (auto simp: is_inside_track_def)

theorem is_inside_track_not_finalized_witness:
  "\<not> finalized (Track 80) \<and> is_inside_track (Track 80) 3 4 = None
   \<and> \<not> truthy (is_inside_track (Track 80) 3 4)"
  using is_inside_track_not_finalized [of "Track 80" 3 4] by (simp add: Track_def)

subsection \<open>Vectors\<close>

lemma norm2_eq_0_iff: "norm2 p = 0 \<longleftrightarrow> p = (0, 0)"
  by (cases p) (simp add: norm2_def)

lemma norm2_nonneg: "0 \<le> norm2 p"
  by (simp add: norm2_def)

lemma vsub_eq_0_iff: "vsub p q = (0, 0) \<longleftrightarrow> p = q"
  by (cases p, cases q) (simp add: vsub_def)

lemma norm2_smul: "norm2 (smul p k) = norm2 p * \<bar>k\<bar>"
proof -
  have "fst p * k * (fst p * k) + snd p * k * (snd p * k) = (fst p * fst p + snd p * snd p) * (k * k)"
    by (simp add: algebra_simps)
  then show ?thesis
    by (simp add: norm2_def smul_def real_sqrt_mult)
qed

lemma rescale_difference:
  "vsub (vadd m (smul (vsub a m) k)) (vadd m (smul (vsub b m) k)) = smul (vsub a b) k"
  by (simp add: vsub_def vadd_def smul_def algebra_simps)

lemma sqrt_3600: "sqrt 3600 = 60"
  using real_sqrt_abs [of 60] by simp

lemma sqrt_1600: "sqrt 1600 = 40"
  using real_sqrt_abs [of 40] by simp

subsection \<open>The repair step\<close>

text \<open>
  A pair closer than \<open>w\<close>, and not coincident, leaves the repair at separation \<open>w / 2\<close>:
  each point is moved to \<open>w / 4\<close> from the midpoint, since the scale \<open>(w / 2) / distance\<close>
  multiplies a vector of length \<open>distance / 2\<close>.
\<close>

lemma adjust_pair_rescaled:
  assumes "norm2 (vsub a b) < w" and "norm2 (vsub a b) \<noteq> 0"
  shows "\<exists>a' b'. adjust_pair w a b = Inr (a', b') \<and> norm2 (vsub a' b') = w / 2"
proof -
  let ?d = "norm2 (vsub a b)"
  let ?m = "smul (vadd a b) (1 / 2)"
  let ?s = "w / 2 / ?d"
  let ?a' = "vadd ?m (smul (vsub a ?m) ?s)"
  let ?b' = "vadd ?m (smul (vsub b ?m) ?s)"
  have eq: "adjust_pair w a b = Inr (?a', ?b')"
    using assms by (simp add: adjust_pair_def Let_def np_divide_def)
  have d0: "0 \<le> ?d" by (rule norm2_nonneg)
  with assms have dpos: "0 < ?d" and wpos: "0 < w" by auto
  have "vsub ?a' ?b' = smul (vsub a b) ?s"
    by (rule rescale_difference)
  then have "norm2 (vsub ?a' ?b') = ?d * \<bar>?s\<bar>"
    by (simp add: norm2_smul)
  also have "\<dots> = w / 2"
  proof -
    have "0 < ?s" using dpos wpos by simp
    then have "\<bar>?s\<bar> = ?s" by (rule abs_of_pos)
    moreover have "?d * ?s = w / 2" using dpos by simp
    ultimately show ?thesis by (simp only:)
  qed
  finally show ?thesis using eq by blast
qed

text \<open>
  Claim C1 says that a pair of boundary points closer than the target width is moved
  apart to exactly the target width, so that no pair stays closer than that. The repair
  loop does otherwise: for the track width 80, the pair \<open>(0, 0)\<close>, \<open>(60, 0)\<close> at
  separation 60 is below the width, the loop scales by \<open>40 / 60\<close> and pulls the two
  points together to \<open>(10, 0)\<close>, \<open>(50, 0)\<close>, at separation 40.
\<close>

theorem adjust_pair_pulls_closer:
  "adjust_boundaries 80 ([(0, 0)], [(60, 0)]) = Inr ([(10, 0)], [(50, 0)]) \<and>
   norm2 (vsub (0, 0) (60, 0)) = 60 \<and> norm2 (vsub (10, 0) (50, 0)) = 40"
  by (simp add: adjust_boundaries_def getitem_def adjust_pair_def Let_def np_divide_def
      norm2_def vsub_def vadd_def smul_def sqrt_3600 sqrt_1600)

subsection \<open>Finalizing\<close>

text \<open>
  Claim C5. On a track with fewer than 3 centerline points \<open>finalize\<close> is a no-op, in
  both classes: it returns the track as it was, with its centerline, boundaries, polygon,
  mask and \<open>finalized\<close> flag, so a track that was not finalized stays in drawing mode.
\<close>

theorem finalize_too_few_points:
  assumes "length (centerline t) < 3"
  shows "finalize fit rasterize t = Inr t \<and> finalize_bt fit t = Inr t"
  using assms by (simp add: finalize_def finalize_bt_def)

theorem finalize_too_few_points_witness:
  "length (centerline (add_point (5, 7) (add_point (1, 2) (Track 80)))) < 3
   \<and> finalize (\<lambda>ps s. None) (\<lambda>poly px. 0) (add_point (5, 7) (add_point (1, 2) (Track 80)))
       = Inr (add_point (5, 7) (add_point (1, 2) (Track 80)))
   \<and> finalize_bt (\<lambda>ps s. None) (add_point (5, 7) (add_point (1, 2) (Track 80)))
       = Inr (add_point (5, 7) (add_point (1, 2) (Track 80)))
   \<and> \<not> finalized (add_point (5, 7) (add_point (1, 2) (Track 80)))"
  using finalize_too_few_points [of "add_point (5, 7) (add_point (1, 2) (Track 80))"
      "\<lambda>ps s. None" "\<lambda>poly px. 0"]
  by (simp add: add_point_def Track_def)

subsection \<open>The membership test outside the canvas\<close>

text \<open>
  At a coordinate whose truncation leaves the canvas, that is below -1 or from the
  canvas size on, the test of a finalized track with a mask returns \<^verbatim>\<open>False\<close>.
\<close>

lemma is_inside_track_beyond:
  assumes "finalized t" and "track_mask t = Some m"
    and "px \<le> - 1 \<or> real_of_int WIDTH \<le> px \<or> py \<le> - 1 \<or> real_of_int HEIGHT \<le> py"
  shows "is_inside_track t px py = Some False"
proof -
  have "py_int px < 0 \<or> WIDTH \<le> py_int px \<or> py_int py < 0 \<or> HEIGHT \<le> py_int py"
    using assms(3) unfolding py_int_def WIDTH_def HEIGHT_def
    by (auto simp: le_floor_iff ceiling_less_iff)
  then show ?thesis
    using assms(1,2) by (auto simp: is_inside_track_def)
qed

text \<open>
  Claim C6 says that the membership test returns false at every coordinate outside the
  canvas. \<^verbatim>\<open>int\<close> truncates towards zero, so a coordinate strictly between -1 and 0
  is taken for pixel 0 and the mask is sampled there: on a finalized track whose mask is
  set along the left edge, the test at \<open>(-0.5, 5)\<close> returns \<^verbatim>\<open>True\<close>.
\<close>

theorem is_inside_track_left_of_canvas:
  "is_inside_track
     \<lparr>centerline = [], inner_boundary = [], outer_boundary = [], width = 80, finalized = True,
       track_polygon = Some [], track_mask = Some (\<lambda>(i, j). if i = 0 then 1 else 0)\<rparr>
     (- (1 / 2)) 5 = Some True"
  by (simp add: is_inside_track_def py_int_def WIDTH_def HEIGHT_def ceiling_eq_iff)

subsection \<open>Sensing and the tick of a car\<close>

text \<open>
  \<open>sense\<close> changes nothing but the sensor readings, and it completes on a car with five
  readings.
\<close>

lemma cast_ray_sensors [simp]: "cast_ray t (c\<lparr>sensors := s\<rparr>) a = cast_ray t c a"
  by (simp add: cast_ray_def)

lemma sense_loop_fields:
  "sense_loop t xs c = Inr c' \<Longrightarrow> c' = c\<lparr>sensors := sensors c'\<rparr>"
proof (induction xs arbitrary: c)
  case Nil
  then show ?case by simp
next
  case (Cons x xs)
  obtain i a where x: "x = (i, a)" by (cases x)
  show ?case
  proof (cases "cast_ray t c (angle c + a)")
    case None
    with Cons x show ?thesis by simp
  next
    case (Some d)
    with Cons.prems x obtain s where s: "setitem (sensors c) i (int d) = Inr s"
      and r: "sense_loop t xs (c\<lparr>sensors := s\<rparr>) = Inr c'"
      by (auto split: sum.splits)
    from Cons.IH [OF r] show ?thesis by (cases c, cases c') simp
  qed
qed

lemma sense_fields: "sense t c = Inr c' \<Longrightarrow> c' = c\<lparr>sensors := sensors c'\<rparr>"
  unfolding sense_def by (rule sense_loop_fields)

text \<open>
  When a ray stops, it stops at the least distance from 1 to 199 whose sample fails the
  membership test; when every sample from 1 to 199 passes, the loop ends without a value.
\<close>

lemma cast_ray_none:
  assumes "\<And>d. 1 \<le> d \<Longrightarrow> d < 200 \<Longrightarrow>
    truthy (is_inside_track t (car_x c + cos (radians a) * real d) (car_y c - sin (radians a) * real d))"
  shows "cast_ray t c a = None"
  unfolding cast_ray_def find_None_iff using assms by auto

lemma cast_ray_least:
  assumes "cast_ray t c a = Some d"
  shows "1 \<le> d \<and> d < 200
    \<and> \<not> truthy (is_inside_track t (car_x c + cos (radians a) * real d) (car_y c - sin (radians a) * real d))
    \<and> (\<forall>k. 1 \<le> k \<and> k < d \<longrightarrow>
         truthy (is_inside_track t (car_x c + cos (radians a) * real k) (car_y c - sin (radians a) * real k)))"
proof -
  let ?P = "\<lambda>d. \<not> truthy (is_inside_track t (car_x c + cos (radians a) * real d) (car_y c - sin (radians a) * real d))"
  from assms obtain i where i: "i < length [1..<200]" "?P ([1..<200] ! i)" "d = [1..<200] ! i"
    and least: "\<forall>j<i. \<not> ?P ([1..<200] ! j)"
    unfolding cast_ray_def find_Some_iff by blast
  from i have d: "d = 1 + i" "i < 199" by auto
  have "truthy (is_inside_track t (car_x c + cos (radians a) * real k) (car_y c - sin (radians a) * real k))"
    if "1 \<le> k" "k < d" for k
  proof -
    from that d have "k - 1 < i" "[1..<200] ! (k - 1) = k" by auto
    with least show ?thesis by metis
  qed
  with i d show ?thesis by auto
qed

lemma cast_ray_first:
  assumes "\<not> truthy (is_inside_track t (car_x c + cos (radians a) * real 1) (car_y c - sin (radians a) * real 1))"
  shows "cast_ray t c a = Some 1"
proof -
  have "[1..<200] = 1 # [2..<200]" by (simp add: upt_conv_Cons)
  then show ?thesis using assms by (simp add: cast_ray_def)
qed

lemma sense_loop_total:
  assumes "\<forall>x \<in> set xs. fst x < length (sensors c)"
  shows "\<exists>c'. sense_loop t xs c = Inr c' \<and> length (sensors c') = length (sensors c)"
  using assms
proof (induction xs arbitrary: c)
  case Nil
  then show ?case by simp
next
  case (Cons x xs)
  obtain i a where x: "x = (i, a)" by (cases x)
  with Cons.prems have i: "i < length (sensors c)" by simp
  show ?case
  proof (cases "cast_ray t c (angle c + a)")
    case None
    with Cons x show ?thesis by simp
  next
    case (Some d)
    let ?c = "c\<lparr>sensors := (sensors c)[i := int d]\<rparr>"
    have "\<forall>x \<in> set xs. fst x < length (sensors ?c)" using Cons.prems by simp
    from Cons.IH [OF this] show ?thesis
      using Some x i by (simp add: setitem_def)
  qed
qed

lemma sense_total:
  assumes "length (sensors c) = 5"
  shows "\<exists>c'. sense t c = Inr c' \<and> length (sensors c') = 5"
proof -
  have "\<forall>x \<in> set (enumerate 0 sensor_angles). fst x < length (sensors c)"
    using assms by (auto simp: sensor_angles_def in_set_enumerate_eq)
  from sense_loop_total [OF this, of t] show ?thesis
    using assms by (simp add: sense_def)
qed

text \<open>
  A reading is left as it was when its own ray finds no failing sample.
\<close>

lemma sense_loop_keeps:
  assumes "sense_loop t xs c = Inr c'"
    and "\<forall>x \<in> set xs. fst x = i \<longrightarrow> cast_ray t c (angle c + snd x) = None"
  shows "sensors c' ! i = sensors c ! i"
  using assms
proof (induction xs arbitrary: c)
  case Nil
  then show ?case by simp
next
  case (Cons x xs)
  obtain j a where x: "x = (j, a)" by (cases x)
  show ?case
  proof (cases "cast_ray t c (angle c + a)")
    case None
    with Cons x show ?thesis by simp
  next
    case (Some d)
    with Cons.prems(2) x have ji: "j \<noteq> i" by auto
    from Cons.prems(1) x Some obtain s where s: "setitem (sensors c) j (int d) = Inr s"
      and r: "sense_loop t xs (c\<lparr>sensors := s\<rparr>) = Inr c'"
      by (auto split: sum.splits)
    from s have s_eq: "s = (sensors c)[j := int d]"
      by (simp add: setitem_def split: if_splits)
    have "\<forall>x \<in> set xs. fst x = i \<longrightarrow>
        cast_ray t (c\<lparr>sensors := s\<rparr>) (angle (c\<lparr>sensors := s\<rparr>) + snd x) = None"
      using Cons.prems(2) by simp
    from Cons.IH [OF r this] show ?thesis
      using ji by (simp add: s_eq)
  qed
qed

text \<open>
  Claim C2 says that a ray with no failing sample within range reads the maximum range
  200. The loop tries the distances 1 to 199 and, when none fails, ends without writing
  the reading, which keeps the value of an earlier tick. On a straight stretch of track,
  the rows 460 to 539 of the mask, a car at \<open>(500, 500)\<close> heading along the track, whose
  centre reading was 57, still reads 57 after \<open>sense\<close>: the samples \<open>(500 + d, 500)\<close> of
  the centre ray are on the track for every \<open>d\<close> from 1 to 199.
\<close>

theorem sense_keeps_stale_reading:
  "(case sense
      \<lparr>centerline = [], inner_boundary = [], outer_boundary = [], width = 80, finalized = True,
        track_polygon = Some [],
        track_mask = Some (\<lambda>(i, j). if 460 \<le> j \<and> j < 540 then 1 else 0)\<rparr>
      \<lparr>start_x = 500, start_y = 500, car_x = 500, car_y = 500, angle = 0, speed = 2,
        sensors = [200, 200, 57, 200, 200], collided = False\<rparr> of
      Inl e \<Rightarrow> None
    | Inr c' \<Rightarrow> Some (sensors c' ! 2)) = Some 57"
proof -
  let ?t = "\<lparr>centerline = [], inner_boundary = [], outer_boundary = [], width = 80,
    finalized = True, track_polygon = Some [],
    track_mask = Some (\<lambda>(i :: int, j :: int). if 460 \<le> j \<and> j < 540 then 1 else 0 :: int)\<rparr>"
  let ?c = "\<lparr>start_x = 500, start_y = 500, car_x = 500, car_y = 500, angle = 0, speed = 2,
       sensors = [200, 200, 57, 200, 200], collided = False\<rparr>"
  have centre: "cast_ray ?t ?c (angle ?c + 0) = None"
  proof (rule cast_ray_none)
    fix d :: nat
    assume "1 \<le> d" "d < 200"
    then have "py_int (500 + real d) = 500 + int d" "500 + int d < 1080"
      by (simp_all add: py_int_def)
    then show "truthy (is_inside_track ?t (car_x ?c + cos (radians (angle ?c + 0)) * real d)
        (car_y ?c - sin (radians (angle ?c + 0)) * real d))"
      by (simp add: is_inside_track_def radians_def WIDTH_def HEIGHT_def py_int_def)
  qed
  have "length (sensors ?c) = 5" by simp
  from sense_total [OF this, of ?t] obtain c' where c': "sense ?t ?c = Inr c'" by blast
  have "\<forall>x \<in> set (enumerate 0 sensor_angles). fst x = 2 \<longrightarrow>
      cast_ray ?t ?c (angle ?c + snd x) = None"
    using centre by (auto simp: sensor_angles_def in_set_enumerate_eq nth_Cons split: nat.splits)
  with c' have "sensors c' ! 2 = sensors ?c ! 2"
    unfolding sense_def by (rule sense_loop_keeps)
  then show ?thesis by (simp add: c')
qed

text \<open>
  Claim C7. In a tick of a car that was not collided, when the position after the move
  fails the membership test or lies outside the canvas, \<open>update\<close> ends with the car
  at its stored start position, heading 0 and speed 2 (the start pose of
  \<^verbatim>\<open>Car.__init__\<close>), and \<open>collided\<close> false.
\<close>

theorem update_collision_resets:
  assumes "\<not> collided c"
    and "sense t c = Inr c1"
    and "ai_model (sensors c1) = Inr turn_angle"
    and "off_track t (move (c1\<lparr>angle := angle c1 + turn_angle\<rparr>))"
  shows "\<exists>c'. update ai_model t c = Inr c' \<and> car_x c' = start_x c \<and> car_y c' = start_y c
    \<and> angle c' = 0 \<and> speed c' = 2 \<and> \<not> collided c'"
proof -
  from assms(2) have c1: "c1 = c\<lparr>sensors := sensors c1\<rparr>" by (rule sense_fields)
  then have "start_x c1 = start_x c" "start_y c1 = start_y c"
    by (metis car.select_convs car.surjective car.update_convs)+
  then show ?thesis
    using assms by (simp add: update_def Let_def reset_def move_def)
qed

theorem update_collision_resets_witness:
  "\<exists>c'. update (\<lambda>s. Inr 0)
      \<lparr>centerline = [], inner_boundary = [], outer_boundary = [], width = 80, finalized = True,
        track_polygon = Some [], track_mask = Some (\<lambda>px. 0)\<rparr> (Car 100 100) = Inr c'
     \<and> car_x c' = 100 \<and> car_y c' = 100 \<and> angle c' = 0 \<and> speed c' = 2 \<and> \<not> collided c'"
proof -
  let ?t = "\<lparr>centerline = [], inner_boundary = [], outer_boundary = [], width = 80,
    finalized = True, track_polygon = Some [], track_mask = Some (\<lambda>px. 0::int)\<rparr>"
  let ?c1 = "(Car 100 100)\<lparr>sensors := [1, 1, 1, 1, 1]\<rparr>"
  have out: "\<not> truthy (is_inside_track ?t px py)" for px py
    by (simp add: is_inside_track_def)
  have ray: "cast_ray ?t c a = Some 1" for c a
    by (rule cast_ray_first) (rule out)
  have 1: "\<not> collided (Car 100 100)" by (simp add: Car_def)
  have rep: "replicate 5 (200::int) = [200, 200, 200, 200, 200]"
    by (simp add: eval_nat_numeral)
  have 2: "sense ?t (Car 100 100) = Inr ?c1"
    by (simp add: rep sense_def sensor_angles_def enumerate_eq_zip upt_rec ray setitem_def Car_def)
  have 3: "(\<lambda>s. Inr 0) (sensors ?c1) = (Inr 0 :: error + real)" by simp
  have 4: "off_track ?t (move (?c1\<lparr>angle := angle ?c1 + 0\<rparr>))"
    by (simp add: off_track_def out)
  from update_collision_resets [of "Car 100 100" ?t ?c1 "\<lambda>s. Inr 0" 0, OF 1 2 3 4]
  show ?thesis by (simp add: Car_def)
qed

subsection \<open>The boundary loops\<close>

lemma segment_offset_eq:
  "segment_offset w p1 p2 =
     Inr (if p1 = p2 then None
          else Some (vadd p1 (offset_vector w p1 p2), vsub p1 (offset_vector w p1 p2)))"
  by (auto simp: segment_offset_def Let_def norm2_eq_0_iff vsub_eq_0_iff vdiv_def np_divide_def
      offset_vector_def)

lemma offset_loop_eq:
  "offset_loop w c js inner outer =
     Inr (inner @ map (inner_point w c) (filter (nondegenerate c) js),
          outer @ map (outer_point w c) (filter (nondegenerate c) js))"
  by (induction js arbitrary: inner outer)
     (simp_all add: segment_offset_eq nondegenerate_def inner_point_def outer_point_def)

lemma norm2_offset_vector:
  assumes "p1 \<noteq> p2"
  shows "norm2 (offset_vector w p1 p2) = \<bar>w\<bar> / 2"
proof -
  let ?v = "vsub p2 p1"
  let ?n = "norm2 ?v"
  have n: "?n \<noteq> 0" using assms by (auto simp: norm2_eq_0_iff vsub_eq_0_iff)
  have "norm2 (- (snd ?v / ?n), fst ?v / ?n) = norm2 (smul (- snd ?v, fst ?v) (1 / ?n))"
    by (simp add: smul_def)
  also have "\<dots> = norm2 (- snd ?v, fst ?v) * \<bar>1 / ?n\<bar>"
    by (rule norm2_smul)
  also have "norm2 (- snd ?v, fst ?v) = ?n"
    by (simp add: norm2_def add.commute)
  also have "?n * \<bar>1 / ?n\<bar> = 1"
    using n norm2_nonneg [of ?v] by simp
  finally have "norm2 (- (snd ?v / ?n), fst ?v / ?n) = 1" .
  then show ?thesis
    unfolding offset_vector_def norm2_smul by simp
qed

text \<open>
  In exact arithmetic the two points of a segment of non-zero length are exactly \<open>\<bar>w\<bar>\<close>
  apart, so the repair step finds a pair closer than \<open>w\<close> only through rounding.
\<close>

lemma offset_pair_separation:
  assumes "p1 \<noteq> p2"
  shows "norm2 (vsub (vadd p1 (offset_vector w p1 p2)) (vsub p1 (offset_vector w p1 p2))) = \<bar>w\<bar>"
proof -
  have "vsub (vadd p1 (offset_vector w p1 p2)) (vsub p1 (offset_vector w p1 p2))
      = smul (offset_vector w p1 p2) 2"
    by (simp add: vsub_def vadd_def smul_def)
  then show ?thesis
    using norm2_offset_vector [OF assms, of w] by (simp add: norm2_smul)
qed

lemma calculate_boundaries_eq:
  "calculate_boundaries t =
     (case filter (nondegenerate (centerline t)) [0..<length (centerline t)] of
        [] \<Rightarrow> Inl IndexError
      | j # js \<Rightarrow>
          Inr (map (inner_point (width t) (centerline t)) (j # js) @ [inner_point (width t) (centerline t) j],
               map (outer_point (width t) (centerline t)) (j # js) @ [outer_point (width t) (centerline t) j]))"
  by (simp add: calculate_boundaries_def offset_loop_eq close_boundaries_def getitem_def
      split: list.splits)

lemma adjust_pair_total: "\<exists>r. adjust_pair w a b = Inr r"
  by (simp add: adjust_pair_def Let_def np_divide_def)

lemma adjust_loop_total:
  assumes "\<forall>i \<in> set js. i < length inner \<and> i < length outer"
  shows "\<exists>ai ao. adjust_loop w inner outer js adjusted_inner adjusted_outer = Inr (ai, ao)
    \<and> length ai = length adjusted_inner + length js
    \<and> length ao = length adjusted_outer + length js"
  using assms
proof (induction js arbitrary: adjusted_inner adjusted_outer)
  case Nil
  then show ?case by simp
next
  case (Cons i js)
  obtain a b where ab: "adjust_pair w (inner ! i) (outer ! i) = Inr (a, b)"
    using adjust_pair_total [of w "inner ! i" "outer ! i"] by auto
  from Cons.prems have "\<forall>i \<in> set js. i < length inner \<and> i < length outer" by simp
  from Cons.IH [OF this, of "adjusted_inner @ [a]" "adjusted_outer @ [b]"]
  show ?case using Cons.prems ab by (simp add: getitem_def)
qed

lemma adjust_boundaries_total:
  assumes "length (fst io) = length (snd io)"
  shows "\<exists>adj. adjust_boundaries w io = Inr adj \<and> length (fst adj) = length (fst io)
    \<and> length (snd adj) = length (fst io)"
proof -
  have "\<forall>i \<in> set [0..<length (fst io)]. i < length (fst io) \<and> i < length (snd io)"
    using assms by simp
  from adjust_loop_total [OF this, of w "[]" "[]"] show ?thesis
    by (auto simp: adjust_boundaries_def)
qed

lemma adjust_loop_no_nan:
  "adjust_loop w inner outer js adjusted_inner adjusted_outer \<noteq> Inl NanValue"
proof (induction js arbitrary: adjusted_inner adjusted_outer)
  case Nil
  then show ?case by simp
next
  case (Cons i js)
  obtain a b where ab: "adjust_pair w (inner ! i) (outer ! i) = Inr (a, b)"
    using adjust_pair_total [of w "inner ! i" "outer ! i"] by auto
  with Cons.IH show ?case by (simp add: getitem_def)
qed

lemma spline_smooth_no_nan: "spline_smooth fit ps s n \<noteq> Inl NanValue"
  by (simp add: spline_smooth_def split: option.splits)

lemma length_linspace: "length (linspace a b n) = n"
  by (simp add: linspace_def)

lemma spline_smooth_length: "spline_smooth fit ps s n = Inr r \<Longrightarrow> length r = n"
  by (auto simp: spline_smooth_def length_linspace split: if_splits option.splits)

lemma calculate_boundaries_no_nan: "calculate_boundaries t \<noteq> Inl NanValue"
  by (simp add: calculate_boundaries_eq split: list.splits)

lemma calculate_boundaries_bt_no_nan: "calculate_boundaries_bt fit t \<noteq> Inl NanValue"
  using calculate_boundaries_no_nan [of t]
  by (auto simp: calculate_boundaries_bt_def adjust_boundaries_def adjust_loop_no_nan
      spline_smooth_no_nan split: sum.splits)

text \<open>
  Claim C8. The first loop of \<^verbatim>\<open>calculate_boundaries\<close> never divides by zero: on every
  centerline it completes, and it appends exactly one inner and one outer point for each
  segment of non-zero length, in order, and none for a segment of zero length. Neither
  class's \<^verbatim>\<open>calculate_boundaries\<close> ever yields the outcome of a division by zero; the
  repair loop guards its own division by \<^verbatim>\<open>distance != 0\<close>.
\<close>

theorem zero_length_segments_skipped:
  "offset_loop w c [0..<length c] [] [] =
     Inr (map (inner_point w c) (filter (nondegenerate c) [0..<length c]),
          map (outer_point w c) (filter (nondegenerate c) [0..<length c]))
   \<and> calculate_boundaries t \<noteq> Inl NanValue
   \<and> calculate_boundaries_bt fit t \<noteq> Inl NanValue"
  using calculate_boundaries_no_nan [of t] calculate_boundaries_bt_no_nan [of fit t]
  by (simp add: offset_loop_eq)

subsection \<open>Finalizing a drawn track\<close>

text \<open>
  What \<open>finalize\<close> computes when the fit of the centerline succeeds: the centerline becomes
  the 200 samples of the fitted curve followed by the first sample again.
\<close>

lemma linspace_nth: "i < n \<Longrightarrow> linspace a b n ! i = a + real i * ((b - a) / real (n - 1))"
  by (simp add: linspace_def)

lemma smooth_centerline_eq:
  assumes "2 < length (centerline t)" and "fit (centerline t) 2 = Some curve"
  shows "smooth_centerline fit t = Inr (t\<lparr>centerline := map curve (linspace 0 1 200)\<rparr>)"
proof -
  from assms(1) have "centerline t \<noteq> []" by auto
  with assms show ?thesis
    by (simp add: smooth_centerline_def spline_smooth_def)
qed

lemma close_smoothed_centerline:
  "close_centerline (t\<lparr>centerline := map curve (linspace 0 1 200)\<rparr>) =
     Inr (t\<lparr>centerline := map curve (linspace 0 1 200) @ [curve 0]\<rparr>)"
proof -
  have "map curve (linspace 0 1 200) ! 0 = curve 0"
    by (simp add: length_linspace linspace_nth)
  then show ?thesis
    by (simp add: close_centerline_def getitem_def length_linspace)
qed

lemma calculate_boundaries_fields:
  "calculate_boundaries (t\<lparr>inner_boundary := a, outer_boundary := b\<rparr>) = calculate_boundaries t"
  by (simp add: calculate_boundaries_def)

lemma finalize_eq:
  assumes "2 < length (centerline t)" and "fit (centerline t) 2 = Some curve"
    and "c = map curve (linspace 0 1 200) @ [curve 0]"
    and "calculate_boundaries (t\<lparr>centerline := c\<rparr>) = Inr io"
  shows "finalize fit rasterize t =
     Inr (t\<lparr>centerline := c, inner_boundary := fst io, outer_boundary := snd io,
           track_polygon := Some (snd io @ rev (fst io)),
           track_mask := Some (rasterize (snd io @ rev (fst io))), finalized := True\<rparr>)"
  using assms
  by (simp add: finalize_def smooth_centerline_eq close_smoothed_centerline
      calculate_boundaries_fields Let_def)

lemma finalize_bt_eq:
  assumes "2 < length (centerline t)" and "fit (centerline t) 2 = Some curve"
    and "c = map curve (linspace 0 1 200) @ [curve 0]"
    and "calculate_boundaries_bt fit (t\<lparr>centerline := c\<rparr>) = Inr io"
  shows "finalize_bt fit t =
     Inr (t\<lparr>centerline := c, inner_boundary := fst io, outer_boundary := snd io,
           finalized := True\<rparr>)"
  using assms
  by (simp add: finalize_bt_def smooth_centerline_eq close_smoothed_centerline)

lemma calculate_boundaries_lengths:
  assumes "filter (nondegenerate (centerline t)) [0..<length (centerline t)] \<noteq> []"
  shows "\<exists>io. calculate_boundaries t = Inr io
    \<and> length (fst io) = Suc (length (filter (nondegenerate (centerline t)) [0..<length (centerline t)]))
    \<and> length (snd io) = Suc (length (filter (nondegenerate (centerline t)) [0..<length (centerline t)]))"
  using assms by (simp add: calculate_boundaries_eq split: list.splits)

lemma calculate_boundaries_bt_lengths:
  assumes "calculate_boundaries t = Inr io" and "length (fst io) = length (snd io)"
    and "fst io \<noteq> []"
    and "\<And>adj. adjust_boundaries (width t) io = Inr adj \<Longrightarrow>
           fit (fst adj) 2 \<noteq> None \<and> fit (snd adj) 2 \<noteq> None"
  shows "\<exists>r. calculate_boundaries_bt fit t = Inr r \<and> length (fst r) = 200 \<and> length (snd r) = 200"
proof -
  from adjust_boundaries_total [OF assms(2), of "width t"]
  obtain adj where adj: "adjust_boundaries (width t) io = Inr adj"
    and len: "length (fst adj) = length (fst io)" "length (snd adj) = length (fst io)"
    by blast
  from len assms(3) have ne: "fst adj \<noteq> []" "snd adj \<noteq> []" by auto
  from assms(4) [OF adj] obtain ci co where fits: "fit (fst adj) 2 = Some ci" "fit (snd adj) 2 = Some co"
    by auto
  show ?thesis
    using assms(1) adj ne fits
    by (simp add: calculate_boundaries_bt_def spline_smooth_def length_linspace)
qed

lemma line_nth:
  assumes "i < 200"
  shows "(map (\<lambda>u. (u * k, 0)) (linspace 0 1 200) @ [(0, 0)]) ! i = (real i / 199 * k, 0)"
  using assms by (simp add: nth_append length_linspace linspace_nth)

lemma line_last:
  "(map (\<lambda>u. (u * k, 0)) (linspace 0 1 200) @ [(0, 0)]) ! 200 = (0, 0)"
  by (simp add: nth_append length_linspace)

lemma line_segments:
  fixes k :: real
  assumes "k \<noteq> 0" and "c = map (\<lambda>u. (u * k, 0)) (linspace 0 1 200) @ [(0, 0)]"
  shows "filter (nondegenerate c) [0..<length c] = [0..<200]"
proof -
  have len: "length c = 201" using assms(2) by (simp add: length_linspace)
  have nth: "c ! i = (real i / 199 * k, 0)" if "i < 200" for i
    using that assms(2) line_nth by simp
  have last: "c ! 200 = (0, 0)" using assms(2) line_last by simp
  have nd: "nondegenerate c i" if "i < 200" for i
  proof (cases "i < 199")
    case True
    then have "(i + 1) mod 201 = i + 1" "i + 1 < 200" by auto
    then show ?thesis
      using nth [of i] nth [of "i + 1"] that assms(1) by (simp add: nondegenerate_def len)
  next
    case False
    with that have i: "i = 199" by simp
    then show ?thesis
      using nth [of 199] last assms(1) by (simp add: nondegenerate_def len)
  qed
  have deg: "\<not> nondegenerate c 200"
    using nth [of 0] last by (simp add: nondegenerate_def len)
  have "[0..<Suc 200] = [0..<200] @ [200]" by (rule upt_Suc_append) simp
  moreover have "Suc 200 = 201" by simp
  ultimately have "[0..<201] = [0..<200] @ [200]" by (simp only:)
  then have "filter (nondegenerate c) [0..<length c] = filter (nondegenerate c) [0..<200]"
    using deg len by simp
  also have "\<dots> = [0..<200]"
    using nd by (simp add: filter_id_conv)
  finally show ?thesis .
qed

lemma handle_event_finalized: "finalized t \<Longrightarrow> handle_event fin e t = Inr t"
  by (cases e) simp_all

text \<open>
  When the fit refuses the centerline, as \<^verbatim>\<open>splprep\<close> refuses a centerline of exactly 3
  points, \<open>finalize\<close> raises in both classes and nothing is finalized.
\<close>

lemma finalize_fit_fails:
  assumes "2 < length (centerline t)" and "fit (centerline t) 2 = None"
  shows "finalize fit rasterize t = Inl SplineError \<and> finalize_bt fit t = Inl SplineError"
proof -
  from assms(1) have "centerline t \<noteq> []" by auto
  with assms show ?thesis
    by (simp add: finalize_def finalize_bt_def smooth_centerline_def spline_smooth_def)
qed

text \<open>
  Claim C3, amended. Let the centerline pass the guard of \<open>finalize\<close> (more than 2
  points), let its fit succeed, let the closed smoothed centerline \<open>c\<close> have a segment of non-zero length, and let the fit
  succeed on the two repaired boundaries. Then \<open>finalize\<close> of \<^verbatim>\<open>boundary test.py\<close>
  completes with two boundaries of 200 points each and \<open>finalized\<close> true. \<open>finalize\<close> of
  \<^verbatim>\<open>AIRacing.py\<close>, which does not resample the boundaries, completes with \<open>finalized\<close>
  true and two boundaries of \<open>k + 1\<close> points each, where \<open>k\<close> is the number of segments of
  non-zero length of \<open>c\<close>: one point for each such segment and the closing point.
\<close>

theorem finalize_point_counts:
  assumes "2 < length (centerline t)"
    and "fit (centerline t) 2 = Some curve"
    and "c = map curve (linspace 0 1 200) @ [curve 0]"
    and "filter (nondegenerate c) [0..<length c] \<noteq> []"
    and "\<And>io adj. calculate_boundaries (t\<lparr>centerline := c\<rparr>) = Inr io \<Longrightarrow>
           adjust_boundaries (width t) io = Inr adj \<Longrightarrow>
           fit (fst adj) 2 \<noteq> None \<and> fit (snd adj) 2 \<noteq> None"
  shows "(\<exists>t'. finalize_bt fit t = Inr t' \<and> length (inner_boundary t') = 200
            \<and> length (outer_boundary t') = 200 \<and> finalized t')
    \<and> (\<exists>t'. finalize fit rasterize t = Inr t'
            \<and> length (inner_boundary t') = Suc (length (filter (nondegenerate c) [0..<length c]))
            \<and> length (outer_boundary t') = Suc (length (filter (nondegenerate c) [0..<length c]))
            \<and> finalized t')"
proof -
  let ?t = "t\<lparr>centerline := c\<rparr>"
  from assms(4) have "filter (nondegenerate (centerline ?t)) [0..<length (centerline ?t)] \<noteq> []"
    by simp
  from calculate_boundaries_lengths [OF this]
  obtain io where io: "calculate_boundaries ?t = Inr io"
    and len: "length (fst io) = Suc (length (filter (nondegenerate c) [0..<length c]))"
      "length (snd io) = Suc (length (filter (nondegenerate c) [0..<length c]))"
    by auto
  from len have eq: "length (fst io) = length (snd io)" and ne: "fst io \<noteq> []" by auto
  have fits: "\<And>adj. adjust_boundaries (width ?t) io = Inr adj \<Longrightarrow>
           fit (fst adj) 2 \<noteq> None \<and> fit (snd adj) 2 \<noteq> None"
    using assms(5) [OF io] by simp
  have "\<exists>r. calculate_boundaries_bt fit ?t = Inr r \<and> length (fst r) = 200 \<and> length (snd r) = 200"
    using io eq ne fits by (rule calculate_boundaries_bt_lengths [where fit = fit])
  then obtain r where r: "calculate_boundaries_bt fit ?t = Inr r" "length (fst r) = 200"
    "length (snd r) = 200" by blast
  have "\<exists>t'. finalize_bt fit t = Inr t' \<and> length (inner_boundary t') = 200
            \<and> length (outer_boundary t') = 200 \<and> finalized t'"
    using finalize_bt_eq [where fit = fit and t = t and curve = curve, OF assms(1-3) r(1)] r(2,3)
    by simp
  moreover have "\<exists>t'. finalize fit rasterize t = Inr t'
            \<and> length (inner_boundary t') = Suc (length (filter (nondegenerate c) [0..<length c]))
            \<and> length (outer_boundary t') = Suc (length (filter (nondegenerate c) [0..<length c]))
            \<and> finalized t'"
    using finalize_eq [where fit = fit and t = t and curve = curve and rasterize = rasterize,
        OF assms(1-3) io] len
    by simp
  ultimately show ?thesis by blast
qed

theorem finalize_point_counts_witness:
  "(\<exists>t'. finalize_bt stroke_fit
      \<lparr>centerline = [(0, 0), (100, 0), (100, 100), (0, 100)], inner_boundary = [],
        outer_boundary = [], width = 80, finalized = False, track_polygon = None,
        track_mask = None\<rparr> = Inr t'
      \<and> length (inner_boundary t') = 200 \<and> length (outer_boundary t') = 200 \<and> finalized t')
   \<and> (\<exists>t'. finalize stroke_fit (\<lambda>poly px. 0)
      \<lparr>centerline = [(0, 0), (100, 0), (100, 100), (0, 100)], inner_boundary = [],
        outer_boundary = [], width = 80, finalized = False, track_polygon = None,
        track_mask = None\<rparr> = Inr t'
      \<and> length (inner_boundary t') = 201 \<and> length (outer_boundary t') = 201 \<and> finalized t')"
proof -
  let ?t = "\<lparr>centerline = [(0, 0), (100, 0), (100, 100), (0, 100)], inner_boundary = [],
    outer_boundary = [], width = 80, finalized = False, track_polygon = None,
    track_mask = None\<rparr>"
  define c :: "point list" where "c = map (\<lambda>u. (u * 4, 0)) (linspace 0 1 200) @ [(0, 0)]"
  have seg: "filter (nondegenerate c) [0..<length c] = [0..<200]"
    by (rule line_segments [of 4]) (simp_all add: c_def)
  have 1: "2 < length (centerline ?t)" by simp
  have 2: "stroke_fit (centerline ?t) 2 = Some (\<lambda>u. (u * 4, 0))" by (simp add: stroke_fit_def)
  have 3: "c = map (\<lambda>u. (u * 4, 0)) (linspace 0 1 200) @ [(0 * 4, 0)]" by (simp add: c_def)
  have 4: "filter (nondegenerate c) [0..<length c] \<noteq> []" using seg by simp
  have 5: "stroke_fit (fst adj) 2 \<noteq> None \<and> stroke_fit (snd adj) 2 \<noteq> None"
    if io: "calculate_boundaries (?t\<lparr>centerline := c\<rparr>) = Inr io"
      and adj: "adjust_boundaries (width ?t) io = Inr adj"
    for io adj
  proof -
    have "filter (nondegenerate (centerline (?t\<lparr>centerline := c\<rparr>)))
        [0..<length (centerline (?t\<lparr>centerline := c\<rparr>))] \<noteq> []"
      using seg by simp
    from calculate_boundaries_lengths [OF this] io seg
    have len: "length (fst io) = 201" "length (snd io) = 201" by auto
    then have "length (fst io) = length (snd io)" by simp
    from adjust_boundaries_total [OF this, of "width ?t"] adj len
    have "length (fst adj) = 201" "length (snd adj) = 201" by auto
    then show ?thesis by (simp add: stroke_fit_def)
  qed
  show ?thesis
    using finalize_point_counts [where fit = stroke_fit and t = ?t and curve = "\<lambda>u. (u * 4, 0)"
        and c = c and rasterize = "\<lambda>poly px. 0", OF 1 2 3 4 5] seg
    by simp
qed

text \<open>
  Claim C3 as stated fails for \<open>finalize\<close> of \<^verbatim>\<open>AIRacing.py\<close>: on a centerline of 4
  points, with a fit whose 200 samples lie on a line without repetition, each boundary has
  201 points, not 200.
\<close>

theorem finalize_main_201_points:
  "(case finalize stroke_fit (\<lambda>poly px. 0)
      \<lparr>centerline = [(0, 0), (100, 0), (100, 100), (0, 100)], inner_boundary = [],
        outer_boundary = [], width = 80, finalized = False, track_polygon = None,
        track_mask = None\<rparr> of
      Inl e \<Rightarrow> None
    | Inr t' \<Rightarrow> Some (length (inner_boundary t'), length (outer_boundary t'), finalized t'))
   = Some (201, 201, True)"
proof -
  let ?t = "\<lparr>centerline = [(0, 0), (100, 0), (100, 100), (0, 100)], inner_boundary = [],
    outer_boundary = [], width = 80, finalized = False, track_polygon = None,
    track_mask = None\<rparr>"
  define c :: "point list" where "c = map (\<lambda>u. (u * 4, 0)) (linspace 0 1 200) @ [(0, 0)]"
  have seg: "filter (nondegenerate c) [0..<length c] = [0..<200]"
    by (rule line_segments [of 4]) (simp_all add: c_def)
  then have "filter (nondegenerate (centerline (?t\<lparr>centerline := c\<rparr>)))
      [0..<length (centerline (?t\<lparr>centerline := c\<rparr>))] \<noteq> []"
    by simp
  from calculate_boundaries_lengths [OF this] seg
  obtain io where io: "calculate_boundaries (?t\<lparr>centerline := c\<rparr>) = Inr io"
    and len: "length (fst io) = 201" "length (snd io) = 201"
    by auto
  have 1: "2 < length (centerline ?t)" by simp
  have 2: "stroke_fit (centerline ?t) 2 = Some (\<lambda>u. (u * 4, 0))" by (simp add: stroke_fit_def)
  have 3: "c = map (\<lambda>u. (u * 4, 0)) (linspace 0 1 200) @ [(0 * 4, 0)]" by (simp add: c_def)
  show ?thesis
    using finalize_eq [where fit = stroke_fit and t = ?t and curve = "\<lambda>u. (u * 4, 0)"
        and rasterize = "\<lambda>poly px. 0", OF 1 2 3 io] len
    by simp
qed

text \<open>
  Claim C4, amended. The guard against a second finalization is in \<^verbatim>\<open>handle_events\<close>,
  not in \<^verbatim>\<open>Track.finalize\<close>: on a finalized track \<^verbatim>\<open>handle_events\<close> ignores the
  space key and every drawing event, so whatever the events are it leaves the track
  unchanged, and it returns false exactly when one of them is \<^verbatim>\<open>QUIT\<close>.
\<close>

theorem handle_events_finalized:
  assumes "finalized t"
  shows "handle_events fin evs t = Inr (QUIT \<notin> set evs, t)"
  using assms
proof (induction evs)
  case Nil
  then show ?case by simp
next
  case (Cons e evs)
  then show ?case by (auto simp: handle_event_finalized)
qed

theorem handle_events_finalized_witness:
  "handle_events (finalize (\<lambda>ps s. None) (\<lambda>poly px. 0))
     [KEYDOWN K_SPACE, MOUSEBUTTONDOWN (3, 4), KEYDOWN K_SPACE]
     \<lparr>centerline = [(0, 0), (100, 0), (100, 100), (0, 0)],
       inner_boundary = [(0, 40), (0, 40)], outer_boundary = [(0, - 40), (0, - 40)],
       width = 80, finalized = True, track_polygon = Some [], track_mask = Some (\<lambda>px. 0)\<rparr>
   = Inr (True,
     \<lparr>centerline = [(0, 0), (100, 0), (100, 100), (0, 0)],
       inner_boundary = [(0, 40), (0, 40)], outer_boundary = [(0, - 40), (0, - 40)],
       width = 80, finalized = True, track_polygon = Some [], track_mask = Some (\<lambda>px. 0)\<rparr>)"
  using handle_events_finalized [of
      "\<lparr>centerline = [(0, 0), (100, 0), (100, 100), (0, 0)],
       inner_boundary = [(0, 40), (0, 40)], outer_boundary = [(0, - 40), (0, - 40)],
       width = 80, finalized = True, track_polygon = Some [], track_mask = Some (\<lambda>px. 0)\<rparr>"
      "finalize (\<lambda>ps s. None) (\<lambda>poly px. 0)"
      "[KEYDOWN K_SPACE, MOUSEBUTTONDOWN (3, 4), KEYDOWN K_SPACE]"]
  by simp

text \<open>
  Claim C4 as stated fails: \<^verbatim>\<open>Track.finalize\<close> does not look at \<open>finalized\<close>. Called on
  the track that a first call has finalized from a centerline of 4 points, it fits the 201
  points of the closed centerline again and replaces the centerline by the samples of the
  new curve: the track changes.
\<close>

theorem finalize_again_changes_track:
  "(case finalize stroke_fit (\<lambda>poly px. 0)
      \<lparr>centerline = [(0, 0), (100, 0), (100, 100), (0, 100)], inner_boundary = [],
        outer_boundary = [], width = 80, finalized = False, track_polygon = None,
        track_mask = None\<rparr> of
      Inl e \<Rightarrow> False
    | Inr t1 \<Rightarrow> finalized t1 \<and> finalize stroke_fit (\<lambda>poly px. 0) t1 \<noteq> Inr t1)"
proof -
  let ?r = "\<lambda>(poly :: point list) (px :: int \<times> int). 0 :: int"
  let ?t = "\<lparr>centerline = [(0, 0), (100, 0), (100, 100), (0, 100)], inner_boundary = [],
    outer_boundary = [], width = 80, finalized = False, track_polygon = None,
    track_mask = None\<rparr>"
  define c1 :: "point list" where "c1 = map (\<lambda>u. (u * 4, 0)) (linspace 0 1 200) @ [(0, 0)]"
  define c2 :: "point list" where "c2 = map (\<lambda>u. (u * 201, 0)) (linspace 0 1 200) @ [(0, 0)]"
  have seg1: "filter (nondegenerate c1) [0..<length c1] = [0..<200]"
    by (rule line_segments [of 4]) (simp_all add: c1_def)
  have seg2: "filter (nondegenerate c2) [0..<length c2] = [0..<200]"
    by (rule line_segments [of 201]) (simp_all add: c2_def)
  have len1: "length c1 = 201" by (simp add: c1_def length_linspace)
  have n1: "c1 ! 199 = (4, 0)"
    unfolding c1_def using line_nth [of 199 4] by simp
  have n2: "c2 ! 199 = (201, 0)"
    unfolding c2_def using line_nth [of 199 201] by simp
  have ne: "c1 \<noteq> c2"
  proof
    assume "c1 = c2"
    with n1 n2 have "((4, 0) :: point) = (201, 0)" by simp
    then show False by simp
  qed
  from seg1 have "filter (nondegenerate (centerline (?t\<lparr>centerline := c1\<rparr>)))
      [0..<length (centerline (?t\<lparr>centerline := c1\<rparr>))] \<noteq> []" by simp
  from calculate_boundaries_lengths [OF this]
  obtain io1 where io1: "calculate_boundaries (?t\<lparr>centerline := c1\<rparr>) = Inr io1" by auto
  define t1 where "t1 = ?t\<lparr>centerline := c1, inner_boundary := fst io1, outer_boundary := snd io1,
           track_polygon := Some (snd io1 @ rev (fst io1)),
           track_mask := Some (?r (snd io1 @ rev (fst io1))), finalized := True\<rparr>"
  have a1: "2 < length (centerline ?t)" by simp
  have a2: "stroke_fit (centerline ?t) 2 = Some (\<lambda>u. (u * 4, 0))" by (simp add: stroke_fit_def)
  have a3: "c1 = map (\<lambda>u. (u * 4, 0)) (linspace 0 1 200) @ [(0 * 4, 0)]" by (simp add: c1_def)
  have first: "finalize stroke_fit ?r ?t = Inr t1"
    unfolding t1_def
    by (rule finalize_eq [where fit = stroke_fit and t = ?t and curve = "\<lambda>u. (u * 4, 0)"
        and rasterize = ?r, OF a1 a2 a3 io1])
  have ct1: "centerline t1 = c1" and ft1: "finalized t1" by (simp_all add: t1_def)
  from seg2 have "filter (nondegenerate (centerline (t1\<lparr>centerline := c2\<rparr>)))
      [0..<length (centerline (t1\<lparr>centerline := c2\<rparr>))] \<noteq> []" by simp
  from calculate_boundaries_lengths [OF this]
  obtain io2 where io2: "calculate_boundaries (t1\<lparr>centerline := c2\<rparr>) = Inr io2" by auto
  have b1: "2 < length (centerline t1)" by (simp add: ct1 len1)
  have b2: "stroke_fit (centerline t1) 2 = Some (\<lambda>u. (u * 201, 0))"
    by (simp add: ct1 len1 stroke_fit_def)
  have b3: "c2 = map (\<lambda>u. (u * 201, 0)) (linspace 0 1 200) @ [(0 * 201, 0)]" by (simp add: c2_def)
  have "finalize stroke_fit ?r t1 = Inr (t1\<lparr>centerline := c2, inner_boundary := fst io2,
           outer_boundary := snd io2, track_polygon := Some (snd io2 @ rev (fst io2)),
           track_mask := Some (?r (snd io2 @ rev (fst io2))), finalized := True\<rparr>)"
    by (rule finalize_eq [where fit = stroke_fit and t = t1 and curve = "\<lambda>u. (u * 201, 0)"
        and rasterize = ?r, OF b1 b2 b3 io2])
  moreover have "t1\<lparr>centerline := c2, inner_boundary := fst io2,
           outer_boundary := snd io2, track_polygon := Some (snd io2 @ rev (fst io2)),
           track_mask := Some (?r (snd io2 @ rev (fst io2))), finalized := True\<rparr> \<noteq> t1"
  proof
    assume "t1\<lparr>centerline := c2, inner_boundary := fst io2,
           outer_boundary := snd io2, track_polygon := Some (snd io2 @ rev (fst io2)),
           track_mask := Some (?r (snd io2 @ rev (fst io2))), finalized := True\<rparr> = t1"
    then have "centerline (t1\<lparr>centerline := c2, inner_boundary := fst io2,
           outer_boundary := snd io2, track_polygon := Some (snd io2 @ rev (fst io2)),
           track_mask := Some (?r (snd io2 @ rev (fst io2))), finalized := True\<rparr>) = centerline t1"
      by (rule arg_cong)
    then show False using ne ct1 by simp
  qed
  ultimately have second: "finalize stroke_fit ?r t1 \<noteq> Inr t1" by simp
  show ?thesis
    unfolding first using ft1 second by simp
qed

end
